theory Spec2Isabelle
  imports Main
begin

section \<open>Field elements, checked integers and keys\<close>

text \<open>
  An o1js \<open>Field\<close> is a residue modulo the Pallas base-field order; it is modelled as a
  natural number, with the reduction written out in the two arithmetic operations the
  contract applies to fields (\<open>add\<close> and \<open>mul\<close>). Comparisons read the residue.
\<close>

type_synonym Field = nat

definition Field_ORDER :: nat where
  "Field_ORDER = 28948022309329048855892746252171976963363056481941560715954676764349967630337"

definition Field_add :: "Field \<Rightarrow> Field \<Rightarrow> Field" where
  "Field_add a b = (a + b) mod Field_ORDER"

definition Field_mul :: "Field \<Rightarrow> Field \<Rightarrow> Field" where
  "Field_mul a b = (a * b) mod Field_ORDER"

text \<open>
  \<open>UInt64.mul\<close> and \<open>UInt32.add\<close> of o1js range-check their result: a product that does
  not fit 64 bits, or a sum that does not fit 32 bits, fails the method. A \<open>UInt64\<close> or
  \<open>UInt32\<close> value is modelled as a natural number.
\<close>

definition UInt64_mul :: "nat \<Rightarrow> nat \<Rightarrow> nat option" where
  "UInt64_mul a b = (if a * b < 2 ^ 64 then Some (a * b) else None)"

definition UInt32_add :: "nat \<Rightarrow> nat \<Rightarrow> nat option" where
  "UInt32_add a b = (if a + b < 2 ^ 32 then Some (a + b) else None)"

record PublicKey =
  x :: Field
  isOdd :: bool

definition toFields :: "PublicKey \<Rightarrow> Field list" where
  "toFields pk = [x pk, (if isOdd pk then 1 else 0)]"

definition GAME_DURATION :: nat where
  "GAME_DURATION = 10"

section \<open>Helpers of utils.ts\<close>

text \<open>
  Modelled from the spec: \<open>compressTurnCountMaxAttemptSolved\<close> of utils.ts, which is not
  among the sources. Section 4.1 describes positional packing in which each component
  has its own, disjoint bit range, with the turn count and the maximum of attempts in
  the low digits and the solved flag as the top bit, and says that input whose range
  the design does not guarantee is rejected or truncated. The model truncates: each
  component is confined to its range, so that no component spills into another. The
  turn count of a submitted proof is the one input whose range no caller guarantees.
  The widths (eight bits for each counter) are a choice of this model; on that range
  the packing is the plain positional one.
\<close>

definition compressTurnCountMaxAttemptSolved :: "Field \<times> Field \<times> Field \<Rightarrow> Field" where
  "compressTurnCountMaxAttemptSolved d =
     (case d of (turnCount, maxAttempts, isSolved) \<Rightarrow>
        turnCount mod 2 ^ 8 + 2 ^ 8 * (maxAttempts mod 2 ^ 8) + 2 ^ 16 * (isSolved mod 2))"

text \<open>
  Modelled from the spec: \<open>separateTurnCountAndMaxAttemptSolved\<close> of utils.ts, the
  unpacking that recovers the packed triple (section 4.1).
\<close>

definition separateTurnCountAndMaxAttemptSolved :: "Field \<Rightarrow> Field \<times> Field \<times> Field" where
  "separateTurnCountAndMaxAttemptSolved v =
     (v mod 2 ^ 8, (v div 2 ^ 8) mod 2 ^ 8, (v div 2 ^ 16) mod 2)"

text \<open>
  Modelled from the spec: \<open>compressRewardAndFinalizeSlot\<close> of utils.ts: the reward (a
  \<open>UInt64\<close>) in the high digits, the deadline slot (a \<open>UInt32\<close>) in the low digits
  (section 4.1).
\<close>

definition compressRewardAndFinalizeSlot :: "nat \<Rightarrow> nat \<Rightarrow> Field" where
  "compressRewardAndFinalizeSlot rewardAmount finalizeSlot =
     rewardAmount * 2 ^ 32 + finalizeSlot"

text \<open>
  Modelled from the spec: \<open>separateRewardAndFinalizeSlot\<close> of utils.ts, returning the
  pair \<open>(rewardAmount, finalizeSlot)\<close> (section 4.1).
\<close>

definition separateRewardAndFinalizeSlot :: "Field \<Rightarrow> nat \<times> nat" where
  "separateRewardAndFinalizeSlot v = ((v div 2 ^ 32) mod 2 ^ 64, v mod 2 ^ 32)"

text \<open>
  Modelled from the spec: \<open>separateCombinationDigits\<close> of utils.ts: four digits packed
  positionally (section 4.1); the tests and the scenario of section 8 write the
  combination 1, 2, 3, 4 as the field 1234, so the radix is ten and the first digit is
  the most significant.
\<close>

definition separateCombinationDigits :: "Field \<Rightarrow> Field list" where
  "separateCombinationDigits c =
     [c div 1000, (c div 100) mod 10, (c div 10) mod 10, c mod 10]"

text \<open>
  Modelled from the spec: \<open>validateCombination\<close> of utils.ts: digit range and uniqueness
  (sections 2 and 7); the digits are the nonzero decimal digits, as the tests use 7.
\<close>

definition validateCombination :: "Field list \<Rightarrow> bool" where
  "validateCombination ds = (list_all (\<lambda>d. 1 \<le> d \<and> d \<le> 9) ds \<and> distinct ds)"

text \<open>
  Modelled from the spec: the second pass of \<open>getClueFromGuess\<close> of utils.ts, which is
  not among the sources (section 4.2). It walks the positions with the solution digits
  that no hit has matched: a hit stays a hit (2); another position is a blow (1) when
  its digit is among the remaining solution digits, consuming one occurrence, and a
  miss (0) otherwise.
\<close>

fun blowPass :: "(Field \<times> Field) list \<Rightarrow> Field list \<Rightarrow> Field list" where
  "blowPass [] rest = []"
| "blowPass ((g, s) # ps) rest =
     (if g = s then 2 # blowPass ps rest
      else if g \<in> set rest then 1 # blowPass ps (remove1 g rest)
      else 0 # blowPass ps rest)"

text \<open>
  Modelled from the spec: \<open>getClueFromGuess\<close> of utils.ts (section 4.2): the
  exact-position pass leaves the solution digits of the positions that are not hits,
  and the second pass marks blows and misses against them.
\<close>

definition getClueFromGuess :: "Field list \<Rightarrow> Field list \<Rightarrow> Field list" where
  "getClueFromGuess guess solution =
     blowPass (zip guess solution)
       (map snd (filter (\<lambda>(g, s). g \<noteq> s) (zip guess solution)))"

text \<open>
  Modelled from the spec: \<open>serializeClue\<close> of utils.ts: the clue digits, each 0, 1 or 2,
  packed positionally (section 4.1); two bits a digit is a choice of this model.
\<close>

definition serializeClue :: "Field list \<Rightarrow> Field" where
  "serializeClue clue = foldr (\<lambda>c acc. c + 4 * acc) clue 0"

text \<open>
  Modelled from the spec: \<open>deserializeClue\<close> of utils.ts, the unpacking of the four clue
  digits (section 4.1).
\<close>

definition deserializeClue :: "Field \<Rightarrow> Field list" where
  "deserializeClue v = [v mod 4, (v div 4) mod 4, (v div 16) mod 4, (v div 64) mod 4]"

text \<open>
  Modelled from the spec: \<open>checkIfSolved\<close> of utils.ts: a clue solves the game when all
  its positions are hits (section 4.2).
\<close>

definition checkIfSolved :: "Field list \<Rightarrow> bool" where
  "checkIfSolved clue = list_all (\<lambda>c. c = 2) clue"

section \<open>The contract state\<close>

text \<open>
  The eight on-chain fields of \<open>MastermindZkApp\<close>, and \<open>provedState\<close> of the account,
  which the methods read as \<open>isInitialized\<close>.
\<close>

record MastermindZkApp =
  provedState :: bool
  turnCountMaxAttemptsIsSolved :: Field
  codeMasterId :: Field
  codeBreakerId :: Field
  refereeId :: Field
  solutionHash :: Field
  unseparatedGuess :: Field
  serializedClue :: Field
  rewardFinalizeSlot :: Field

text \<open>A freshly deployed account: every field zero, nothing proved yet.\<close>

definition deployed :: MastermindZkApp where
  "deployed = \<lparr> provedState = False, turnCountMaxAttemptsIsSolved = 0, codeMasterId = 0,
     codeBreakerId = 0, refereeId = 0, solutionHash = 0, unseparatedGuess = 0,
     serializedClue = 0, rewardFinalizeSlot = 0 \<rparr>"

text \<open>The public output of a step proof, and the proof with the result of verifying it.\<close>

record PublicOutputs =
  out_codeMasterId :: Field
  out_codeBreakerId :: Field
  out_solutionHash :: Field
  out_lastGuess :: Field
  out_serializedClue :: Field
  out_turnCount :: Field

record StepProgramProof =
  publicOutput :: PublicOutputs
  verifies :: bool

text \<open>
  What a call meets when its transaction is applied: the signing sender, the global
  slot, and the balance of the contract's own account. The ledger rejects a transaction
  that takes more from an account than it holds, so a \<open>this.send\<close> of more than
  \<open>zkappBalance\<close> fails the call, after the assertions of the method have passed.
\<close>

record CallCtx =
  sender :: PublicKey
  globalSlotSinceGenesis :: nat
  zkappBalance :: nat

text \<open>
  A method moves funds by adding a balance change to the transaction; the model returns
  these transfers beside the new state. \<open>ZkApp\<close> is the contract's own account. The
  balance of the account that signs \<open>createGame\<close> or \<open>acceptGame\<close> is not modelled: what
  is proved of these two methods is what holds when they succeed.
\<close>

datatype party = ZkApp | Account PublicKey

datatype transfer = Send party party nat

datatype error =
    AlreadyInitialized | NotInitialized | MinAttempts | MaxAttempts
  | AlreadyCreated | InvalidCombination | AlreadyAccepted | NotCreated | NotAccepted
  | AlreadyFinalized | NotFinalized | AlreadySolved | ProofInvalid
  | CodeBreakerIdMismatch | CodeMasterIdMismatch | SolutionHashMismatch | PreviousTurn
  | NotPlayer | NotWinner | NotReferee | NotCodeBreakerTurn | AttemptsExhausted
  | NotCodeBreaker | NotCodeMaster | NotCodeMasterTurn | Overflow | InsufficientBalance

type_synonym outcome = "error + (MastermindZkApp \<times> transfer list)"

text \<open>The decoded views of the two compressed fields.\<close>

definition turnCount :: "MastermindZkApp \<Rightarrow> Field" where
  "turnCount s = fst (separateTurnCountAndMaxAttemptSolved (turnCountMaxAttemptsIsSolved s))"

definition maxAttempts :: "MastermindZkApp \<Rightarrow> Field" where
  "maxAttempts s =
     fst (snd (separateTurnCountAndMaxAttemptSolved (turnCountMaxAttemptsIsSolved s)))"

definition isSolved :: "MastermindZkApp \<Rightarrow> Field" where
  "isSolved s =
     snd (snd (separateTurnCountAndMaxAttemptSolved (turnCountMaxAttemptsIsSolved s)))"

definition rewardAmount :: "MastermindZkApp \<Rightarrow> nat" where
  "rewardAmount s = fst (separateRewardAndFinalizeSlot (rewardFinalizeSlot s))"

definition finalizeSlot :: "MastermindZkApp \<Rightarrow> nat" where
  "finalizeSlot s = snd (separateRewardAndFinalizeSlot (rewardFinalizeSlot s))"

section \<open>The methods of MastermindZkApp\<close>

text \<open>
  Every method takes the Poseidon hash as its first argument \<open>H\<close>: the theorems hold
  for every hash function. An assertion that fails is the \<open>Inl\<close> branch, in the order
  of the source.
\<close>

definition assertFinalized :: "CallCtx \<Rightarrow> MastermindZkApp \<Rightarrow> bool" where
  "assertFinalized ctx s = (finalizeSlot s \<le> globalSlotSinceGenesis ctx)"

definition assertNotFinalized :: "CallCtx \<Rightarrow> MastermindZkApp \<Rightarrow> bool" where
  "assertNotFinalized ctx s = (globalSlotSinceGenesis ctx < finalizeSlot s)"

text \<open>
  \<open>initGame\<close> calls \<open>super.init()\<close>, which writes zero to the eight fields, before its
  two range assertions; writing all eight fields under a proof is what makes
  \<open>provedState\<close> true from then on.
\<close>

definition initGame ::
  "(Field list \<Rightarrow> Field) \<Rightarrow> CallCtx \<Rightarrow> MastermindZkApp \<Rightarrow> Field \<Rightarrow> PublicKey \<Rightarrow> outcome" where
  "initGame H ctx s maxAtt refereePubKey =
     (if provedState s then Inl AlreadyInitialized
      else if \<not> 5 \<le> maxAtt then Inl MinAttempts
      else if \<not> maxAtt \<le> 15 then Inl MaxAttempts
      else Inr (deployed \<lparr> provedState := True,
                  turnCountMaxAttemptsIsSolved :=
                    compressTurnCountMaxAttemptSolved (0, maxAtt, 0),
                  refereeId := H (toFields refereePubKey) \<rparr>, []))"

definition createGame ::
  "(Field list \<Rightarrow> Field) \<Rightarrow> CallCtx \<Rightarrow> MastermindZkApp \<Rightarrow> Field \<Rightarrow> Field \<Rightarrow> nat \<Rightarrow> outcome" where
  "createGame H ctx s unseparatedSecretCombination salt reward =
     (if \<not> provedState s then Inl NotInitialized
      else if turnCount s \<noteq> 0 then Inl AlreadyCreated
      else if \<not> validateCombination (separateCombinationDigits unseparatedSecretCombination)
        then Inl InvalidCombination
      else Inr (s \<lparr> solutionHash :=
                      H (separateCombinationDigits unseparatedSecretCombination @ [salt]),
                    codeMasterId := H (toFields (sender ctx)),
                    turnCountMaxAttemptsIsSolved :=
                      compressTurnCountMaxAttemptSolved
                        (Field_add (turnCount s) 1, maxAttempts s, isSolved s),
                    rewardFinalizeSlot := compressRewardAndFinalizeSlot reward 0 \<rparr>,
                [Send (Account (sender ctx)) ZkApp reward]))"

definition acceptGame ::
  "(Field list \<Rightarrow> Field) \<Rightarrow> CallCtx \<Rightarrow> MastermindZkApp \<Rightarrow> outcome" where
  "acceptGame H ctx s =
     (if \<not> provedState s then Inl NotInitialized
      else if codeBreakerId s \<noteq> 0 then Inl AlreadyAccepted
      else if turnCount s \<noteq> 1 then Inl NotCreated
      else (case UInt32_add (globalSlotSinceGenesis ctx) GAME_DURATION of
              None \<Rightarrow> Inl Overflow
            | Some slot \<Rightarrow>
               (case UInt64_mul (rewardAmount s) 2 of
                  None \<Rightarrow> Inl Overflow
                | Some pool \<Rightarrow>
                    Inr (s \<lparr> codeBreakerId := H (toFields (sender ctx)),
                             rewardFinalizeSlot := compressRewardAndFinalizeSlot pool slot \<rparr>,
                         [Send (Account (sender ctx)) ZkApp (rewardAmount s)]))))"

definition submitGameProof ::
  "(Field list \<Rightarrow> Field) \<Rightarrow> CallCtx \<Rightarrow> MastermindZkApp \<Rightarrow> StepProgramProof \<Rightarrow> outcome" where
  "submitGameProof H ctx s stepProof =
     (let out = publicOutput stepProof in
      if \<not> provedState s then Inl NotInitialized
      else if codeBreakerId s = 0 then Inl NotAccepted
      else if \<not> assertNotFinalized ctx s then Inl AlreadyFinalized
      else if isSolved s \<noteq> 0 then Inl AlreadySolved
      else if \<not> verifies stepProof then Inl ProofInvalid
      else if out_codeBreakerId out \<noteq> codeBreakerId s then Inl CodeBreakerIdMismatch
      else if out_codeMasterId out \<noteq> codeMasterId s then Inl CodeMasterIdMismatch
      else if out_solutionHash out \<noteq> solutionHash s then Inl SolutionHashMismatch
      else if \<not> turnCount s < out_turnCount out then Inl PreviousTurn
      else
        (let maxAttemptsExceeded = (Field_mul (maxAttempts s) 2 \<le> out_turnCount out);
             solved = (if checkIfSolved (deserializeClue (out_serializedClue out))
                          \<and> \<not> maxAttemptsExceeded then 1 else 0)
         in Inr (s \<lparr> codeBreakerId := out_codeBreakerId out,
                      unseparatedGuess := out_lastGuess out,
                      serializedClue := out_serializedClue out,
                      turnCountMaxAttemptsIsSolved :=
                        compressTurnCountMaxAttemptSolved
                          (out_turnCount out, maxAttempts s, solved) \<rparr>, [])))"

definition claimReward ::
  "(Field list \<Rightarrow> Field) \<Rightarrow> CallCtx \<Rightarrow> MastermindZkApp \<Rightarrow> outcome" where
  "claimReward H ctx s =
     (let claimer = sender ctx;
          isCodeMaster = (codeMasterId s = H (toFields claimer));
          isCodeBreaker = (codeBreakerId s = H (toFields claimer))
      in if \<not> assertFinalized ctx s then Inl NotFinalized
         else if \<not> (isCodeMaster \<or> isCodeBreaker) then Inl NotPlayer
         else if \<not> ((isCodeMaster \<and> isSolved s = 0) \<or> (isCodeBreaker \<and> isSolved s = 1))
           then Inl NotWinner
         else if zkappBalance ctx < rewardAmount s then Inl InsufficientBalance
         else Inr (s, [Send ZkApp (Account claimer) (rewardAmount s)]))"

definition penalizeCodeBreaker ::
  "(Field list \<Rightarrow> Field) \<Rightarrow> CallCtx \<Rightarrow> MastermindZkApp \<Rightarrow> PublicKey \<Rightarrow> outcome" where
  "penalizeCodeBreaker H ctx s codeMasterPubKey =
     (if \<not> provedState s then Inl NotInitialized
      else if refereeId s \<noteq> H (toFields (sender ctx)) then Inl NotReferee
      else if codeMasterId s \<noteq> H (toFields codeMasterPubKey) then Inl CodeMasterIdMismatch
      else if zkappBalance ctx < rewardAmount s then Inl InsufficientBalance
      else Inr (s, [Send ZkApp (Account codeMasterPubKey) (rewardAmount s)]))"

definition penalizeCodeMaster ::
  "(Field list \<Rightarrow> Field) \<Rightarrow> CallCtx \<Rightarrow> MastermindZkApp \<Rightarrow> PublicKey \<Rightarrow> outcome" where
  "penalizeCodeMaster H ctx s codeBreakerPubKey =
     (if \<not> provedState s then Inl NotInitialized
      else if refereeId s \<noteq> H (toFields (sender ctx)) then Inl NotReferee
      else if codeBreakerId s \<noteq> H (toFields codeBreakerPubKey) then Inl CodeBreakerIdMismatch
      else if zkappBalance ctx < rewardAmount s then Inl InsufficientBalance
      else Inr (s, [Send ZkApp (Account codeBreakerPubKey) (rewardAmount s)]))"

text \<open>
  In \<open>makeGuess\<close> the source passes \<open>setCodeBreakerId()\<close> as an argument of \<open>Provable.if\<close>,
  so the write of the caller's hash to \<open>codeBreakerId\<close> happens on every call; the stored
  value read beside it is the one from before the call.
\<close>

definition makeGuess ::
  "(Field list \<Rightarrow> Field) \<Rightarrow> CallCtx \<Rightarrow> MastermindZkApp \<Rightarrow> Field \<Rightarrow> outcome" where
  "makeGuess H ctx s guess =
     (if \<not> provedState s then Inl NotInitialized
      else if \<not> assertNotFinalized ctx s then Inl AlreadyFinalized
      else if isSolved s \<noteq> 0 then Inl AlreadySolved
      else if even (turnCount s) then Inl NotCodeBreakerTurn
      else if \<not> turnCount s < Field_mul (maxAttempts s) 2 then Inl AttemptsExhausted
      else
        (let computedCodebreakerId = H (toFields (sender ctx));
             isFirstGuess = (turnCount s = 1);
             expected = (if isFirstGuess then computedCodebreakerId else codeBreakerId s)
         in if computedCodebreakerId \<noteq> expected then Inl NotCodeBreaker
            else if \<not> validateCombination (separateCombinationDigits guess)
              then Inl InvalidCombination
            else Inr (s \<lparr> codeBreakerId := computedCodebreakerId,
                         unseparatedGuess := guess,
                         turnCountMaxAttemptsIsSolved :=
                           compressTurnCountMaxAttemptSolved
                             (Field_add (turnCount s) 1, maxAttempts s, isSolved s) \<rparr>, [])))"

definition giveClue ::
  "(Field list \<Rightarrow> Field) \<Rightarrow> CallCtx \<Rightarrow> MastermindZkApp \<Rightarrow> Field \<Rightarrow> Field \<Rightarrow> outcome" where
  "giveClue H ctx s unseparatedSecretCombination salt =
     (if \<not> provedState s then Inl NotInitialized
      else if \<not> assertNotFinalized ctx s then Inl AlreadyFinalized
      else if codeMasterId s \<noteq> H (toFields (sender ctx)) then Inl NotCodeMaster
      else if \<not> turnCount s \<le> Field_mul (maxAttempts s) 2 then Inl AttemptsExhausted
      else if isSolved s \<noteq> 0 then Inl AlreadySolved
      else if \<not> (even (turnCount s) \<and> turnCount s \<noteq> 0) then Inl NotCodeMasterTurn
      else
        (let solution = separateCombinationDigits unseparatedSecretCombination in
         if solutionHash s \<noteq> H (solution @ [salt]) then Inl SolutionHashMismatch
         else
           (let clue = getClueFromGuess (separateCombinationDigits (unseparatedGuess s)) solution;
                isSolvedThisTurn = (if checkIfSolved clue then 1 else 0)
            in Inr (s \<lparr> serializedClue := serializeClue clue,
                         turnCountMaxAttemptsIsSolved :=
                           compressTurnCountMaxAttemptSolved
                             (Field_add (turnCount s) 1, maxAttempts s, isSolvedThisTurn) \<rparr>,
                    []))))"

section \<open>Calls, runs and reachable states\<close>

datatype call =
    InitGame Field PublicKey
  | CreateGame Field Field nat
  | AcceptGame
  | SubmitGameProof StepProgramProof
  | ClaimReward
  | PenalizeCodeBreaker PublicKey
  | PenalizeCodeMaster PublicKey
  | MakeGuess Field
  | GiveClue Field Field

fun invoke :: "(Field list \<Rightarrow> Field) \<Rightarrow> CallCtx \<Rightarrow> MastermindZkApp \<Rightarrow> call \<Rightarrow> outcome" where
  "invoke H ctx s (InitGame maxAtt refereePubKey) = initGame H ctx s maxAtt refereePubKey"
| "invoke H ctx s (CreateGame secret salt reward) = createGame H ctx s secret salt reward"
| "invoke H ctx s AcceptGame = acceptGame H ctx s"
| "invoke H ctx s (SubmitGameProof stepProof) = submitGameProof H ctx s stepProof"
| "invoke H ctx s ClaimReward = claimReward H ctx s"
| "invoke H ctx s (PenalizeCodeBreaker pk) = penalizeCodeBreaker H ctx s pk"
| "invoke H ctx s (PenalizeCodeMaster pk) = penalizeCodeMaster H ctx s pk"
| "invoke H ctx s (MakeGuess guess) = makeGuess H ctx s guess"
| "invoke H ctx s (GiveClue secret salt) = giveClue H ctx s secret salt"


text \<open>
  The balance of the contract's account after the transfers of a call: what is sent to
  it is added, what it sends is taken away.
\<close>

fun settle :: "nat \<Rightarrow> transfer list \<Rightarrow> nat" where
  "settle balance [] = balance"
| "settle balance (Send (Account p) ZkApp amount # ts) = settle (balance + amount) ts"
| "settle balance (Send ZkApp (Account p) amount # ts) = settle (balance - amount) ts"
| "settle balance (Send p q amount # ts) = settle balance ts"

text \<open>
  A sequence of transactions, each given by its sender, its slot and its call, applied
  to a state and to the balance of the contract's account; the run stops at the first
  transaction that fails.
\<close>

fun run ::
  "(Field list \<Rightarrow> Field) \<Rightarrow> MastermindZkApp \<Rightarrow> nat \<Rightarrow> (PublicKey \<times> nat \<times> call) list
     \<Rightarrow> error + (MastermindZkApp \<times> nat)" where
  "run H s balance [] = Inr (s, balance)"
| "run H s balance ((pk, slot, c) # cs) =
     (case invoke H \<lparr> sender = pk, globalSlotSinceGenesis = slot, zkappBalance = balance \<rparr> s c of
        Inl e \<Rightarrow> Inl e
      | Inr (s', ts) \<Rightarrow> run H s' (settle balance ts) cs)"


section \<open>A sample game\<close>

text \<open>
  Concrete data for evaluating the model: a stand-in for the hash (the theorems do not
  depend on it), four keys, and the states of the scenario of the tests: a game of five
  attempts created by the code master with the secret 1234 and a reward of 100000, then
  accepted by the code breaker at slot 0.
\<close>

definition sampleHash :: "Field list \<Rightarrow> Field" where
  "sampleHash fs = foldl (\<lambda>a f. 3 * a + f + 1) 0 fs"

definition masterKey :: PublicKey where
  "masterKey = \<lparr> x = 1, isOdd = False \<rparr>"

definition breakerKey :: PublicKey where
  "breakerKey = \<lparr> x = 2, isOdd = False \<rparr>"

definition refereeKey :: PublicKey where
  "refereeKey = \<lparr> x = 3, isOdd = False \<rparr>"

definition intruderKey :: PublicKey where
  "intruderKey = \<lparr> x = 4, isOdd = False \<rparr>"

definition at :: "PublicKey \<Rightarrow> nat \<Rightarrow> nat \<Rightarrow> CallCtx" where
  "at pk slot balance = \<lparr> sender = pk, globalSlotSinceGenesis = slot, zkappBalance = balance \<rparr>"

definition sampleSalt :: Field where
  "sampleSalt = 99"

definition initializedGame :: MastermindZkApp where
  "initializedGame = \<lparr> provedState = True, turnCountMaxAttemptsIsSolved = 1280,
     codeMasterId = 0, codeBreakerId = 0, refereeId = 13, solutionHash = 0,
     unseparatedGuess = 0, serializedClue = 0, rewardFinalizeSlot = 0 \<rparr>"

definition createdGame :: MastermindZkApp where
  "createdGame = initializedGame \<lparr> turnCountMaxAttemptsIsSolved := 1281,
     codeMasterId := 7, solutionHash := 394,
     rewardFinalizeSlot := 100000 * 2 ^ 32 \<rparr>"

definition acceptedGame :: MastermindZkApp where
  "acceptedGame = createdGame \<lparr> codeBreakerId := 10,
     rewardFinalizeSlot := 200000 * 2 ^ 32 + 10 \<rparr>"

text \<open>The accepted game after the code breaker has guessed 2134, and a step proof of a solved game.\<close>

definition guessedGame :: MastermindZkApp where
  "guessedGame = acceptedGame \<lparr> unseparatedGuess := 2134, turnCountMaxAttemptsIsSolved := 1282 \<rparr>"

definition solvingProof :: StepProgramProof where
  "solvingProof = \<lparr> publicOutput = \<lparr> out_codeMasterId = 7, out_codeBreakerId = 10,
      out_solutionHash = 394, out_lastGuess = 1234, out_serializedClue = 170,
      out_turnCount = 5 \<rparr>, verifies = True \<rparr>"

text \<open>
  The transactions that lead to the accepted game, and a game played on chain up to
  the fifth and last guess, which is the secret: four wrong guesses 2134, each answered
  by the code master, then the guess 1234.
\<close>

definition sampleTrace :: "(PublicKey \<times> nat \<times> call) list" where
  "sampleTrace =
     [(masterKey, 0, InitGame 5 refereeKey),
      (masterKey, 0, CreateGame 1234 sampleSalt 100000),
      (breakerKey, 0, AcceptGame)]"

definition lastGuessTrace :: "(PublicKey \<times> nat \<times> call) list" where
  "lastGuessTrace =
     [(breakerKey, 1, MakeGuess 2134), (masterKey, 1, GiveClue 1234 sampleSalt),
      (breakerKey, 2, MakeGuess 2134), (masterKey, 2, GiveClue 1234 sampleSalt),
      (breakerKey, 3, MakeGuess 2134), (masterKey, 3, GiveClue 1234 sampleSalt),
      (breakerKey, 4, MakeGuess 2134), (masterKey, 4, GiveClue 1234 sampleSalt),
      (breakerKey, 5, MakeGuess 1234)]"

definition lastGuessGame :: MastermindZkApp where
  "lastGuessGame = acceptedGame \<lparr> unseparatedGuess := 1234, serializedClue := 165,
     turnCountMaxAttemptsIsSolved := 1290 \<rparr>"

definition solvedLateGame :: MastermindZkApp where
  "solvedLateGame = lastGuessGame \<lparr> serializedClue := 170,
     turnCountMaxAttemptsIsSolved := 66827 \<rparr>"

section \<open>Facts about the helpers\<close>

lemmas sample_defs = deployed_def at_def sampleHash_def toFields_def masterKey_def breakerKey_def
  refereeKey_def intruderKey_def sampleSalt_def acceptedGame_def createdGame_def initializedGame_def
  guessedGame_def solvingProof_def

lemmas codec_defs = compressTurnCountMaxAttemptSolved_def separateTurnCountAndMaxAttemptSolved_def
  turnCount_def maxAttempts_def isSolved_def rewardAmount_def finalizeSlot_def
  compressRewardAndFinalizeSlot_def separateRewardAndFinalizeSlot_def separateCombinationDigits_def
  validateCombination_def Field_add_def Field_mul_def Field_ORDER_def UInt32_add_def UInt64_mul_def
  GAME_DURATION_def assertFinalized_def assertNotFinalized_def

lemmas eval_defs = initGame_def createGame_def acceptGame_def makeGuess_def giveClue_def
  getClueFromGuess_def serializeClue_def deserializeClue_def checkIfSolved_def
  sampleTrace_def lastGuessTrace_def lastGuessGame_def solvedLateGame_def



lemma separate_compress_reward:
  assumes "r < 2 ^ 64" and "f < 2 ^ 32"
  shows "separateRewardAndFinalizeSlot (compressRewardAndFinalizeSlot r f) = (r, f)"
  using assms by (simp add: separateRewardAndFinalizeSlot_def compressRewardAndFinalizeSlot_def)


lemma maxAttempts_less: "maxAttempts s < 2 ^ 8"
  by (simp add: maxAttempts_def separateTurnCountAndMaxAttemptSolved_def)


lemma Field_mul_small: "a < 2 ^ 8 \<Longrightarrow> Field_mul a 2 = 2 * a"
  by (simp add: Field_mul_def Field_ORDER_def)



section \<open>One call at a time\<close>















lemma run_sampleTrace: "run sampleHash deployed 0 sampleTrace = Inr (acceptedGame, 200000)"
  by (simp add: eval_defs sample_defs codec_defs)




section \<open>The claims\<close>



text \<open>
  Claim C2. A \<open>claimReward\<close> call succeeds only if the hash of the caller equals the
  stored \<open>codeMasterId\<close> or \<open>codeBreakerId\<close> and the caller is the winner: the code
  master when \<open>isSolved\<close> is 0, the code breaker when it is 1. On success the one
  transfer it makes sends the stored \<open>rewardAmount\<close> from the contract to the caller.
\<close>

theorem claimReward_winner_only:
  assumes "claimReward H ctx s = Inr (s', ts)"
  shows "(H (toFields (sender ctx)) = codeMasterId s \<or> H (toFields (sender ctx)) = codeBreakerId s)
       \<and> ((H (toFields (sender ctx)) = codeMasterId s \<and> isSolved s = 0)
          \<or> (H (toFields (sender ctx)) = codeBreakerId s \<and> isSolved s = 1))
       \<and> ts = [Send ZkApp (Account (sender ctx)) (rewardAmount s)]"
  using assms by (auto simp: claimReward_def Let_def split: if_splits)

theorem claimReward_winner_only_witness:
  "claimReward sampleHash (at masterKey 10 200000) acceptedGame =
     Inr (acceptedGame, [Send ZkApp (Account masterKey) 200000])
   \<and> sampleHash (toFields masterKey) = codeMasterId acceptedGame
   \<and> isSolved acceptedGame = 0 \<and> rewardAmount acceptedGame = 200000"
proof -
  have run: "claimReward sampleHash (at masterKey 10 200000) acceptedGame =
     Inr (acceptedGame, [Send ZkApp (Account masterKey) (rewardAmount acceptedGame)])"
    by (simp add: claimReward_def sample_defs codec_defs)
  have r: "rewardAmount acceptedGame = 200000" by (simp add: sample_defs codec_defs)
  from claimReward_winner_only [OF run] show ?thesis
    using run r by (simp add: sample_defs codec_defs)
qed

text \<open>
  Claim C3 does not hold of the code. The sample game has been accepted by the code
  breaker, whose hash is the stored nonzero \<open>codeBreakerId\<close>; the turn count is still 1.
  A \<open>makeGuess\<close> call by another key succeeds there and overwrites \<open>codeBreakerId\<close>
  with the hash of that key: on the first guess the value compared with the caller's
  hash is the caller's hash itself.
\<close>

theorem makeGuess_rebinds_codeBreaker:
  "run sampleHash deployed 0 sampleTrace = Inr (acceptedGame, 200000)
   \<and> codeBreakerId acceptedGame = sampleHash (toFields breakerKey)
   \<and> codeBreakerId acceptedGame \<noteq> 0
   \<and> sampleHash (toFields intruderKey) \<noteq> codeBreakerId acceptedGame
   \<and> makeGuess sampleHash (at intruderKey 1 200000) acceptedGame 2134 =
       Inr (acceptedGame \<lparr> codeBreakerId := sampleHash (toFields intruderKey),
              unseparatedGuess := 2134, turnCountMaxAttemptsIsSolved := 1282 \<rparr>, [])"
proof -
  have "makeGuess sampleHash (at intruderKey 1 200000) acceptedGame 2134 =
       Inr (acceptedGame \<lparr> codeBreakerId := sampleHash (toFields intruderKey),
              unseparatedGuess := 2134, turnCountMaxAttemptsIsSolved := 1282 \<rparr>, [])"
    by (simp add: eval_defs sample_defs codec_defs)
  moreover have "codeBreakerId acceptedGame = sampleHash (toFields breakerKey)"
    "codeBreakerId acceptedGame \<noteq> 0"
    "sampleHash (toFields intruderKey) \<noteq> codeBreakerId acceptedGame"
    by (simp_all add: sample_defs)
  ultimately show ?thesis using run_sampleTrace by simp
qed

text \<open>
  The same holds of every state at turn count 1 that passes the earlier checks: the
  stored \<open>codeBreakerId\<close> plays no part, and the caller's hash replaces it.
\<close>

lemma makeGuess_first_guess_unguarded:
  assumes "provedState s" and "assertNotFinalized ctx s" and "isSolved s = 0"
    and "turnCount s = 1" and "1 \<le> maxAttempts s"
    and "validateCombination (separateCombinationDigits guess)"
  shows "\<exists>s'. makeGuess H ctx s guess = Inr (s', [])
           \<and> codeBreakerId s' = H (toFields (sender ctx))"
proof -
  have "Field_mul (maxAttempts s) 2 = 2 * maxAttempts s"
    by (rule Field_mul_small [OF maxAttempts_less])
  with assms(5) have "turnCount s < Field_mul (maxAttempts s) 2"
    by (simp add: assms(4))
  with assms show ?thesis by (simp add: makeGuess_def Let_def)
qed

text \<open>
  From the second guess on the check does guard the stored identity.
\<close>

lemma makeGuess_later_guess_guarded:
  assumes "turnCount s \<noteq> 1" and "H (toFields (sender ctx)) \<noteq> codeBreakerId s"
  shows "\<exists>e. makeGuess H ctx s guess = Inl e"
  using assms by (auto simp: makeGuess_def Let_def)




text \<open>
  Claim C5 does not hold of the code. The claim is that a \<open>claimReward\<close> call made while
  \<open>finalizeSlot\<close> is still unset (stored as 0) fails. After \<open>createGame\<close> and before any
  \<open>acceptGame\<close> the stored \<open>finalizeSlot\<close> is 0; \<open>assertFinalized\<close> compares the current slot
  with it and so passes at every slot, and a \<open>claimReward\<close> call of the code master
  succeeds and takes the stored reward out of the escrow. The game can still be accepted
  afterwards: the stored reward is then 200000 while the contract holds 100000.
\<close>

theorem claimReward_pays_before_accept:
  "run sampleHash deployed 0
     [(masterKey, 0, InitGame 5 refereeKey),
      (masterKey, 0, CreateGame 1234 sampleSalt 100000)] = Inr (createdGame, 100000)
   \<and> finalizeSlot createdGame = 0
   \<and> claimReward sampleHash (at masterKey 0 100000) createdGame =
       Inr (createdGame, [Send ZkApp (Account masterKey) 100000])
   \<and> run sampleHash deployed 0
     [(masterKey, 0, InitGame 5 refereeKey),
      (masterKey, 0, CreateGame 1234 sampleSalt 100000),
      (masterKey, 0, ClaimReward),
      (breakerKey, 0, AcceptGame)] = Inr (acceptedGame, 100000)
   \<and> rewardAmount acceptedGame = 200000"
proof -
  have created: "run sampleHash deployed 0
     [(masterKey, 0, InitGame 5 refereeKey),
      (masterKey, 0, CreateGame 1234 sampleSalt 100000)] = Inr (createdGame, 100000)"
    by (simp add: initGame_def createGame_def sample_defs codec_defs)
  have unset: "finalizeSlot createdGame = 0"
    by (simp add: sample_defs codec_defs)
  have claim: "claimReward sampleHash (at masterKey 0 100000) createdGame =
       Inr (createdGame, [Send ZkApp (Account masterKey) 100000])"
    by (simp add: claimReward_def sample_defs codec_defs)
  have accepted: "run sampleHash deployed 0
     [(masterKey, 0, InitGame 5 refereeKey),
      (masterKey, 0, CreateGame 1234 sampleSalt 100000),
      (masterKey, 0, ClaimReward),
      (breakerKey, 0, AcceptGame)] = Inr (acceptedGame, 100000)"
    by (simp add: initGame_def createGame_def claimReward_def acceptGame_def
        sample_defs codec_defs)
  have "rewardAmount acceptedGame = 200000"
    by (simp add: sample_defs codec_defs)
  with created unset claim accepted show ?thesis by simp
qed

text \<open>
  Once \<open>finalizeSlot\<close> has been set, the check does hold a claim back until that slot.
\<close>

lemma claimReward_before_finalizeSlot_fails:
  "globalSlotSinceGenesis ctx < finalizeSlot s \<Longrightarrow> claimReward H ctx s = Inl NotFinalized"
  by (simp add: claimReward_def assertFinalized_def Let_def)

text \<open>
  Claim C6. An \<open>acceptGame\<close> call succeeds only if the stored turn count is 1 and
  \<open>codeBreakerId\<close> is 0. On success it takes the stored \<open>rewardAmount\<close> from the caller
  into the contract, sets \<open>codeBreakerId\<close> to the hash of the caller's public key,
  doubles the stored \<open>rewardAmount\<close>, sets \<open>finalizeSlot\<close> to the current global slot
  plus \<open>GAME_DURATION\<close>, which is 10, and changes no other field.
\<close>

theorem acceptGame_effect:
  assumes "acceptGame H ctx s = Inr (s', ts)"
  shows "turnCount s = 1 \<and> codeBreakerId s = 0
       \<and> ts = [Send (Account (sender ctx)) ZkApp (rewardAmount s)]
       \<and> codeBreakerId s' = H (toFields (sender ctx))
       \<and> rewardAmount s' = 2 * rewardAmount s
       \<and> finalizeSlot s' = globalSlotSinceGenesis ctx + GAME_DURATION
       \<and> GAME_DURATION = 10
       \<and> s' = s \<lparr> codeBreakerId := codeBreakerId s', rewardFinalizeSlot := rewardFinalizeSlot s' \<rparr>"
proof -
  from assms have pre: "turnCount s = 1" "codeBreakerId s = 0"
      and slot: "globalSlotSinceGenesis ctx + GAME_DURATION < 2 ^ 32"
      and pool: "rewardAmount s * 2 < 2 ^ 64"
    by (auto simp: acceptGame_def UInt32_add_def UInt64_mul_def
        split: if_splits option.splits)
  from assms have s': "s' = s \<lparr> codeBreakerId := H (toFields (sender ctx)),
        rewardFinalizeSlot := compressRewardAndFinalizeSlot (rewardAmount s * 2)
          (globalSlotSinceGenesis ctx + GAME_DURATION) \<rparr>"
      and ts: "ts = [Send (Account (sender ctx)) ZkApp (rewardAmount s)]"
    by (auto simp: acceptGame_def UInt32_add_def UInt64_mul_def
        split: if_splits option.splits)
  have "separateRewardAndFinalizeSlot (rewardFinalizeSlot s') =
      (rewardAmount s * 2, globalSlotSinceGenesis ctx + GAME_DURATION)"
    using separate_compress_reward [OF pool slot] by (simp add: s')
  then have "rewardAmount s' = 2 * rewardAmount s"
      "finalizeSlot s' = globalSlotSinceGenesis ctx + GAME_DURATION"
    by (simp_all add: rewardAmount_def finalizeSlot_def)
  with pre ts show ?thesis by (simp add: s' GAME_DURATION_def)
qed

theorem acceptGame_effect_witness:
  "acceptGame sampleHash (at breakerKey 0 100000) createdGame =
     Inr (acceptedGame, [Send (Account breakerKey) ZkApp 100000])
   \<and> turnCount createdGame = 1 \<and> codeBreakerId createdGame = 0
   \<and> rewardAmount createdGame = 100000
   \<and> codeBreakerId acceptedGame = sampleHash (toFields breakerKey)
   \<and> rewardAmount acceptedGame = 200000 \<and> finalizeSlot acceptedGame = 10"
proof -
  have run: "acceptGame sampleHash (at breakerKey 0 100000) createdGame =
     Inr (acceptedGame, [Send (Account breakerKey) ZkApp (rewardAmount createdGame)])"
    by (simp add: acceptGame_def sample_defs codec_defs)
  have r: "rewardAmount createdGame = 100000" by (simp add: sample_defs codec_defs)
  from acceptGame_effect [OF run] show ?thesis
    using run r by (simp add: at_def GAME_DURATION_def)
qed

text \<open>
  Claim C7. A \<open>giveClue\<close> call in which the hash of the digits of the supplied secret
  followed by the supplied salt differs from the stored \<open>solutionHash\<close> fails, whoever
  calls and whatever the state; a failed call leaves no new state.
\<close>

theorem giveClue_wrong_secret_fails:
  assumes "H (separateCombinationDigits secret @ [salt]) \<noteq> solutionHash s"
  shows "\<exists>e. giveClue H ctx s secret salt = Inl e"
  using assms by (auto simp: giveClue_def Let_def)

theorem giveClue_wrong_secret_fails_witness:
  "sampleHash (separateCombinationDigits 4321 @ [sampleSalt]) \<noteq> solutionHash guessedGame
   \<and> giveClue sampleHash (at masterKey 1 200000) guessedGame 4321 sampleSalt = Inl SolutionHashMismatch
   \<and> (\<exists>e. giveClue sampleHash (at masterKey 1 200000) guessedGame 4321 sampleSalt = Inl e)"
proof -
  have wrong: "sampleHash (separateCombinationDigits 4321 @ [sampleSalt]) \<noteq> solutionHash guessedGame"
    by (simp add: sample_defs codec_defs)
  have "giveClue sampleHash (at masterKey 1 200000) guessedGame 4321 sampleSalt = Inl SolutionHashMismatch"
    by (simp add: giveClue_def sample_defs codec_defs)
  with wrong giveClue_wrong_secret_fails [where H = sampleHash and secret = 4321
      and salt = sampleSalt and s = guessedGame and ctx = "at masterKey 1 200000"]
  show ?thesis by simp
qed

text \<open>
  Claim C8, as stated, fails. In the accepted sample game the contract holds 200000,
  the stored reward. A \<open>penalizeCodeBreaker\<close> call of the referee pays it to the code
  master and leaves the stored state as it was. The same call again, in the same
  initialized state, with the caller the referee and the key that of the code master,
  fails, because the contract's account is empty; so does \<open>penalizeCodeMaster\<close>.
\<close>

theorem penalize_on_empty_pool_counterexample:
  "run sampleHash deployed 0 (sampleTrace @ [(refereeKey, 0, PenalizeCodeBreaker masterKey)]) =
     Inr (acceptedGame, 0)
   \<and> provedState acceptedGame
   \<and> sampleHash (toFields (sender (at refereeKey 0 0))) = refereeId acceptedGame
   \<and> sampleHash (toFields masterKey) = codeMasterId acceptedGame
   \<and> sampleHash (toFields breakerKey) = codeBreakerId acceptedGame
   \<and> penalizeCodeBreaker sampleHash (at refereeKey 0 0) acceptedGame masterKey =
       Inl InsufficientBalance
   \<and> penalizeCodeMaster sampleHash (at refereeKey 0 0) acceptedGame breakerKey =
       Inl InsufficientBalance"
proof -
  have paid: "run sampleHash deployed 0
      (sampleTrace @ [(refereeKey, 0, PenalizeCodeBreaker masterKey)]) = Inr (acceptedGame, 0)"
    by (simp add: penalizeCodeBreaker_def eval_defs sample_defs codec_defs)
  have ids: "provedState acceptedGame"
    "sampleHash (toFields (sender (at refereeKey 0 0))) = refereeId acceptedGame"
    "sampleHash (toFields masterKey) = codeMasterId acceptedGame"
    "sampleHash (toFields breakerKey) = codeBreakerId acceptedGame"
    by (simp_all add: sample_defs)
  have b: "penalizeCodeBreaker sampleHash (at refereeKey 0 0) acceptedGame masterKey =
       Inl InsufficientBalance"
    by (simp add: penalizeCodeBreaker_def sample_defs codec_defs)
  have m: "penalizeCodeMaster sampleHash (at refereeKey 0 0) acceptedGame breakerKey =
       Inl InsufficientBalance"
    by (simp add: penalizeCodeMaster_def sample_defs codec_defs)
  from paid ids b m show ?thesis by simp
qed

text \<open>
  Claim C8, amended. In every initialized state, when the hash of the caller equals the
  stored \<open>refereeId\<close> and the balance of the contract's account covers the stored
  \<open>rewardAmount\<close>, \<open>penalizeCodeBreaker\<close> succeeds for a key that hashes to the stored
  \<open>codeMasterId\<close>, and \<open>penalizeCodeMaster\<close> for a key that hashes to the stored
  \<open>codeBreakerId\<close>; each sends the stored \<open>rewardAmount\<close> from the contract to that
  key. Nothing is required of \<open>finalizeSlot\<close>, the current slot, the turn count or
  \<open>isSolved\<close>.
\<close>

theorem penalize_pays_without_deadline:
  assumes "provedState s" and "H (toFields (sender ctx)) = refereeId s"
    and "rewardAmount s \<le> zkappBalance ctx"
  shows "(H (toFields pk) = codeMasterId s \<longrightarrow>
            penalizeCodeBreaker H ctx s pk = Inr (s, [Send ZkApp (Account pk) (rewardAmount s)]))
       \<and> (H (toFields pk) = codeBreakerId s \<longrightarrow>
            penalizeCodeMaster H ctx s pk = Inr (s, [Send ZkApp (Account pk) (rewardAmount s)]))"
  using assms by (simp add: penalizeCodeBreaker_def penalizeCodeMaster_def)

theorem penalize_pays_without_deadline_witness:
  "provedState acceptedGame
   \<and> sampleHash (toFields (sender (at refereeKey 0 200000))) = refereeId acceptedGame
   \<and> rewardAmount acceptedGame \<le> zkappBalance (at refereeKey 0 200000)
   \<and> globalSlotSinceGenesis (at refereeKey 0 200000) < finalizeSlot acceptedGame
   \<and> penalizeCodeBreaker sampleHash (at refereeKey 0 200000) acceptedGame masterKey =
       Inr (acceptedGame, [Send ZkApp (Account masterKey) 200000])
   \<and> penalizeCodeMaster sampleHash (at refereeKey 0 200000) acceptedGame breakerKey =
       Inr (acceptedGame, [Send ZkApp (Account breakerKey) 200000])"
proof -
  have init: "provedState acceptedGame" by (simp add: sample_defs)
  have ref: "sampleHash (toFields (sender (at refereeKey 0 200000))) = refereeId acceptedGame"
    by (simp add: sample_defs)
  have m: "sampleHash (toFields masterKey) = codeMasterId acceptedGame"
    and b: "sampleHash (toFields breakerKey) = codeBreakerId acceptedGame"
    and r: "rewardAmount acceptedGame = 200000"
    and bal: "rewardAmount acceptedGame \<le> zkappBalance (at refereeKey 0 200000)"
    and early: "globalSlotSinceGenesis (at refereeKey 0 200000) < finalizeSlot acceptedGame"
    by (simp_all add: sample_defs codec_defs)
  show ?thesis
    using penalize_pays_without_deadline [where H = sampleHash and ctx = "at refereeKey 0 200000"
        and s = acceptedGame and pk = masterKey]
      penalize_pays_without_deadline [where H = sampleHash and ctx = "at refereeKey 0 200000"
        and s = acceptedGame and pk = breakerKey] init ref m b r bal early
    by simp
qed

text \<open>
  Claim C9. While the stored \<open>finalizeSlot\<close> is 0, the not-finalized check fails at
  every slot, so every \<open>makeGuess\<close>, \<open>giveClue\<close> and \<open>submitGameProof\<close> call fails;
  and \<open>createGame\<close> leaves \<open>finalizeSlot\<close> at 0, so no guess or clue is recorded on
  a game that was created and not accepted.
\<close>

theorem no_play_before_accept:
  "(finalizeSlot s = 0 \<longrightarrow>
      \<not> assertNotFinalized ctx s
      \<and> makeGuess H ctx s guess \<in> {Inl NotInitialized, Inl AlreadyFinalized}
      \<and> giveClue H ctx s secret salt \<in> {Inl NotInitialized, Inl AlreadyFinalized}
      \<and> submitGameProof H ctx s stepProof
          \<in> {Inl NotInitialized, Inl NotAccepted, Inl AlreadyFinalized})
   \<and> (createGame H ctx s secret salt reward = Inr (s', ts) \<longrightarrow> finalizeSlot s' = 0)"
proof -
  have closed: "\<not> assertNotFinalized ctx s" if "finalizeSlot s = 0"
    using that by (simp add: assertNotFinalized_def)
  have guess: "makeGuess H ctx s guess \<in> {Inl NotInitialized, Inl AlreadyFinalized}"
    if "finalizeSlot s = 0"
    using closed [OF that] by (simp add: makeGuess_def)
  have clue: "giveClue H ctx s secret salt \<in> {Inl NotInitialized, Inl AlreadyFinalized}"
    if "finalizeSlot s = 0"
    using closed [OF that] by (simp add: giveClue_def)
  have sub: "submitGameProof H ctx s stepProof
      \<in> {Inl NotInitialized, Inl NotAccepted, Inl AlreadyFinalized}"
    if "finalizeSlot s = 0"
    using closed [OF that] by (simp add: submitGameProof_def Let_def)
  have created: "finalizeSlot s' = 0" if "createGame H ctx s secret salt reward = Inr (s', ts)"
  proof -
    from that have "rewardFinalizeSlot s' = compressRewardAndFinalizeSlot reward 0"
      by (auto simp: createGame_def split: if_splits)
    then show ?thesis
      by (simp add: finalizeSlot_def separateRewardAndFinalizeSlot_def
          compressRewardAndFinalizeSlot_def)
  qed
  from closed guess clue sub created show ?thesis by blast
qed

theorem no_play_before_accept_witness:
  "createGame sampleHash (at masterKey 0 0) initializedGame 1234 sampleSalt 100000 =
     Inr (createdGame, [Send (Account masterKey) ZkApp 100000])
   \<and> finalizeSlot createdGame = 0
   \<and> makeGuess sampleHash (at breakerKey 0 100000) createdGame 2134 = Inl AlreadyFinalized
   \<and> giveClue sampleHash (at masterKey 0 100000) createdGame 1234 sampleSalt = Inl AlreadyFinalized
   \<and> submitGameProof sampleHash (at breakerKey 0 100000) createdGame solvingProof = Inl NotAccepted"
proof -
  have run: "createGame sampleHash (at masterKey 0 0) initializedGame 1234 sampleSalt 100000 =
     Inr (createdGame, [Send (Account masterKey) ZkApp 100000])"
    by (simp add: createGame_def sample_defs codec_defs)
  have unset: "finalizeSlot createdGame = 0"
    using no_play_before_accept [where H = sampleHash and ctx = "at masterKey 0 0"
        and s = initializedGame and secret = 1234 and salt = sampleSalt and reward = 100000
        and s' = createdGame and ts = "[Send (Account masterKey) ZkApp 100000]"]
      run by simp
  have g: "makeGuess sampleHash (at breakerKey 0 100000) createdGame 2134 = Inl AlreadyFinalized"
    by (simp add: makeGuess_def sample_defs codec_defs)
  have c: "giveClue sampleHash (at masterKey 0 100000) createdGame 1234 sampleSalt = Inl AlreadyFinalized"
    by (simp add: giveClue_def sample_defs codec_defs)
  have p: "submitGameProof sampleHash (at breakerKey 0 100000) createdGame solvingProof = Inl NotAccepted"
    by (simp add: submitGameProof_def sample_defs codec_defs)
  from run unset g c p show ?thesis by simp
qed

text \<open>
  Claim C10. A successful \<open>claimReward\<close>, \<open>penalizeCodeBreaker\<close> or
  \<open>penalizeCodeMaster\<close> call returns the state it was given, all eight fields
  unchanged (so \<open>rewardFinalizeSlot\<close> still holds the reward and the slot from before
  the payout); its only effect is one transfer of the stored \<open>rewardAmount\<close>.
\<close>

theorem payout_leaves_state:
  "(claimReward H ctx s = Inr (s', ts) \<longrightarrow>
      s' = s \<and> ts = [Send ZkApp (Account (sender ctx)) (rewardAmount s)])
   \<and> (penalizeCodeBreaker H ctx s pk = Inr (s', ts) \<longrightarrow>
      s' = s \<and> ts = [Send ZkApp (Account pk) (rewardAmount s)])
   \<and> (penalizeCodeMaster H ctx s pk = Inr (s', ts) \<longrightarrow>
      s' = s \<and> ts = [Send ZkApp (Account pk) (rewardAmount s)])"
  by (auto simp: claimReward_def penalizeCodeBreaker_def penalizeCodeMaster_def Let_def
      split: if_splits)


theorem payout_leaves_state_witness:
  "claimReward sampleHash (at masterKey 10 200000) acceptedGame =
     Inr (acceptedGame, [Send ZkApp (Account masterKey) 200000])
   \<and> penalizeCodeBreaker sampleHash (at refereeKey 3 200000) acceptedGame masterKey =
     Inr (acceptedGame, [Send ZkApp (Account masterKey) 200000])
   \<and> penalizeCodeMaster sampleHash (at refereeKey 3 200000) acceptedGame breakerKey =
     Inr (acceptedGame, [Send ZkApp (Account breakerKey) 200000])
   \<and> rewardAmount acceptedGame = 200000"
proof -
  have c: "claimReward sampleHash (at masterKey 10 200000) acceptedGame =
     Inr (acceptedGame, [Send ZkApp (Account masterKey) 200000])"
    by (simp add: claimReward_def sample_defs codec_defs)
  have b: "penalizeCodeBreaker sampleHash (at refereeKey 3 200000) acceptedGame masterKey =
     Inr (acceptedGame, [Send ZkApp (Account masterKey) 200000])"
    by (simp add: penalizeCodeBreaker_def sample_defs codec_defs)
  have m: "penalizeCodeMaster sampleHash (at refereeKey 3 200000) acceptedGame breakerKey =
     Inr (acceptedGame, [Send ZkApp (Account breakerKey) 200000])"
    by (simp add: penalizeCodeMaster_def sample_defs codec_defs)
  have "[Send ZkApp (Account masterKey) 200000] =
      [Send ZkApp (Account masterKey) (rewardAmount acceptedGame)]"
    using payout_leaves_state [where H = sampleHash and ctx = "at refereeKey 3 200000"
        and s = acceptedGame and s' = acceptedGame and pk = masterKey
        and ts = "[Send ZkApp (Account masterKey) 200000]"] b
    by blast
  then have "rewardAmount acceptedGame = 200000" by simp
  with c b m show ?thesis by simp
qed

end
